theory Spec2Isabelle
  imports Main
begin

section \<open>Tables\<close>

text \<open>
  The two relational tables of the application. A row of \<open>meal\<close> follows the migration
  (\<open>id\<close> primary key; \<open>name\<close>, \<open>description\<close>, \<open>ate_at\<close>, \<open>is_diet\<close> not nullable;
  \<open>user_id\<close> a nullable reference to \<open>users.id\<close>: the only column declared without
  \<open>notNullable()\<close>). Column names carry the table's name as a prefix, since \<open>id\<close> and
  \<open>name\<close> occur in both tables. A timestamp is a number of milliseconds; a table is the
  list of its rows in the store's natural order.

  Modelled from the spec: the columns of \<open>users\<close> (its migration is not among the sources),
  \<open>users(id UUID PK, session_id UUID unique, name string, email string, birthDate
  timestamp)\<close>. No column is said to be not nullable; \<open>birthDate\<close> is null where the request
  gave a string that is no date.
\<close>

type_synonym uuid = string
type_synonym timestamp = int

record users_row =
  users_id :: uuid
  users_session_id :: uuid
  users_name :: string
  users_email :: string
  users_birthDate :: "timestamp option"

record meal_row =
  meal_id :: uuid
  meal_name :: string
  meal_description :: string
  meal_ate_at :: timestamp
  meal_is_diet :: bool
  meal_user_id :: "uuid option"

record store =
  users :: "users_row list"
  meal :: "meal_row list"

definition empty_store :: store where
  "empty_store = \<lparr>users = [], meal = []\<rparr>"

section \<open>The query builder\<close>

text \<open>
  What a query of the handlers does to a table. A query whose \<open>where\<close> clause binds
  \<open>undefined\<close> is refused by the query builder when it is compiled, an \<open>update\<close> whose
  values are all \<open>undefined\<close> likewise. An \<open>insert\<close> that repeats a primary key, and an
  \<open>insert\<close> or \<open>update\<close> that would store null in a column that is not nullable, are
  refused by the store. In each case the awaited promise rejects and the tables are as
  they were. \<open>ZodError\<close> is a request body a schema refuses; \<open>Unauthorized\<close> is a request
  the pre-handler halts.
\<close>

datatype error = UndefinedBinding | EmptyUpdate | ConstraintViolation | ZodError | Unauthorized

text \<open>\<open>knex('users').where('session_id', sessionId).first()\<close>\<close>

definition first_user :: "store \<Rightarrow> string \<Rightarrow> users_row option" where
  "first_user s sessionId = find (\<lambda>u. users_session_id u = sessionId) (users s)"

text \<open>\<open>.where({ id, user_id })\<close> on \<open>meal\<close>, with both values defined.\<close>

definition where_id_user_id :: "uuid \<Rightarrow> uuid \<Rightarrow> meal_row \<Rightarrow> bool" where
  "where_id_user_id i u m = (meal_id m = i \<and> meal_user_id m = Some u)"

text \<open>\<open>.where({ user_id })\<close> and \<open>.where({ user_id, is_diet })\<close> on \<open>meal\<close>.\<close>

definition where_user_id :: "uuid \<Rightarrow> meal_row \<Rightarrow> bool" where
  "where_user_id u m = (meal_user_id m = Some u)"

definition where_user_id_is_diet :: "uuid \<Rightarrow> bool \<Rightarrow> meal_row \<Rightarrow> bool" where
  "where_user_id_is_diet u d m = (meal_user_id m = Some u \<and> meal_is_diet m = d)"

text \<open>\<open>.count('*', { as: 'total' })\<close> resolves to a list of one row.\<close>

record count_row =
  total :: nat

definition count_total :: "meal_row list \<Rightarrow> count_row list" where
  "count_total rows = [\<lparr>total = length rows\<rparr>]"

text \<open>
  The argument of \<open>.update({...})\<close>: a column whose value is \<open>undefined\<close> (\<open>None\<close>) is
  left out of the statement. The value for \<open>ate_at\<close> is a \<open>Date\<close>; an invalid one
  (\<open>Some None\<close>) is stored as null, which \<open>ate_at\<close> does not take: the statement fails
  when it matches a row. The promise resolves to the number of rows the statement
  matched.
\<close>

record meal_update =
  set_name :: "string option"
  set_description :: "string option"
  set_is_diet :: "bool option"
  set_ate_at :: "timestamp option option"

definition apply_update :: "meal_update \<Rightarrow> meal_row \<Rightarrow> meal_row" where
  "apply_update d r =
     r\<lparr>meal_name := (case set_name d of None \<Rightarrow> meal_name r | Some v \<Rightarrow> v),
       meal_description := (case set_description d of None \<Rightarrow> meal_description r | Some v \<Rightarrow> v),
       meal_is_diet := (case set_is_diet d of None \<Rightarrow> meal_is_diet r | Some v \<Rightarrow> v),
       meal_ate_at := (case set_ate_at d of Some (Some v) \<Rightarrow> v | _ \<Rightarrow> meal_ate_at r)\<rparr>"

definition knex_update ::
  "(meal_row \<Rightarrow> bool) \<Rightarrow> meal_update \<Rightarrow> meal_row list \<Rightarrow> error + (meal_row list \<times> nat)" where
  "knex_update w d rows =
     (if set_name d = None \<and> set_description d = None \<and> set_is_diet d = None \<and> set_ate_at d = None
      then Inl EmptyUpdate
      else if set_ate_at d = Some None \<and> filter w rows \<noteq> [] then Inl ConstraintViolation
      else Inr (map (\<lambda>r. if w r then apply_update d r else r) rows, length (filter w rows)))"

text \<open>
  \<open>knex('meal').insert({...})\<close>: the values of the statement, with \<open>user_id\<close> undefined
  (\<open>None\<close>, stored as null: the column has no default) or an id, and \<open>ate_at\<close> an invalid
  \<open>Date\<close> (\<open>None\<close>, null) or a timestamp. \<open>ate_at\<close> is not nullable and \<open>id\<close> is the primary
  key of the migration.
\<close>

record meal_insert =
  ins_id :: uuid
  ins_user_id :: "uuid option"
  ins_name :: string
  ins_description :: string
  ins_is_diet :: bool
  ins_ate_at :: "timestamp option"

definition insert_meal :: "meal_insert \<Rightarrow> meal_row list \<Rightarrow> error + meal_row list" where
  "insert_meal v rows =
     (case ins_ate_at v of
        None \<Rightarrow> Inl ConstraintViolation
      | Some t \<Rightarrow>
          if ins_id v \<in> set (map meal_id rows) then Inl ConstraintViolation
          else Inr (rows @ [\<lparr>meal_id = ins_id v, meal_name = ins_name v,
                 meal_description = ins_description v, meal_ate_at = t,
                 meal_is_diet = ins_is_diet v, meal_user_id = ins_user_id v\<rparr>]))"

text \<open>
  Modelled from the spec: the keys of the table \<open>users\<close> (its migration is not among the
  sources), \<open>users(id UUID PK, session_id UUID unique, ...)\<close>.
\<close>

definition insert_user :: "users_row \<Rightarrow> users_row list \<Rightarrow> error + users_row list" where
  "insert_user r rows =
     (if users_id r \<in> set (map users_id rows) \<or> users_session_id r \<in> set (map users_session_id rows)
      then Inl ConstraintViolation else Inr (rows @ [r]))"

section \<open>Replies\<close>

text \<open>
  A value of the \<open>meal\<close> field of a reply body: \<open>undefined\<close>, a number or a row. The body
  of a reply is one of the objects the handlers return.
\<close>

datatype js_value = Undefined | Number nat | Row meal_row

record metrics =
  mealsCount :: "count_row list"
  inDiet :: "count_row list"
  outDiet :: "count_row list"
  score_bestScore :: nat

datatype payload =
    NoBody
  | UsersBody "users_row list"
  | MetricsBody metrics
  | MealsBody "meal_row list"
  | MealBody js_value

record cookie =
  cookie_name :: string
  cookie_value :: string
  cookie_path :: string
  cookie_maxAge :: nat

record reply =
  status :: nat
  cookies :: "cookie list"
  payload :: payload

section \<open>The streak scan\<close>

text \<open>
  The loop of the metrics handler over \<open>sortedMeals\<close>. The state is the pair of the
  variables \<open>(bestScore, score)\<close>; the result is their value when the loop ends.
\<close>

fun streak :: "meal_row list \<Rightarrow> nat \<times> nat \<Rightarrow> nat \<times> nat" where
  "streak [] (bestScore, score) = (bestScore, score)"
| "streak (m # ms) (bestScore, score) =
     (let score' = (if meal_is_diet m then score + 1 else 0);
          bestScore' = (if score' > bestScore then score' else bestScore)
      in streak ms (bestScore', score'))"

section \<open>The handlers of \<open>usersRoutes\<close>\<close>

text \<open>
  Each handler is the body of the function registered for a route, for any value of the
  \<open>sessionId\<close> cookie; the pre-handler \<open>checkSessionIdExists\<close> of the routes that have
  one comes after the handlers. Request bodies and parameters are the values the schemas
  have parsed, but for \<open>PATCH\<close>, whose body is also given as it arrives. The values of \<open>randomUUID()\<close> and the conversion
  \<open>new Date(string)\<close> are parameters; the conversion gives \<open>None\<close>, an invalid \<open>Date\<close>, for
  a string that is no date. A handler that writes returns the store it leaves; \<open>Inl\<close> is a
  rejected promise.
\<close>

record create_user_body =
  cu_name :: string
  cu_email :: string
  cu_birthDate :: string

definition post_users ::
  "(string \<Rightarrow> timestamp option) \<Rightarrow> store \<Rightarrow> create_user_body \<Rightarrow> uuid \<Rightarrow> uuid \<Rightarrow> store \<times> (error + reply)" where
  "post_users new_Date s b sessionId newId =
     (let date = new_Date (cu_birthDate b);
          c = \<lparr>cookie_name = ''sessionId'', cookie_value = sessionId, cookie_path = ''/'',
               cookie_maxAge = 1000 * 60 * 60 * 24 * 7\<rparr>
      in case insert_user \<lparr>users_id = newId, users_session_id = sessionId, users_name = cu_name b,
                users_email = cu_email b, users_birthDate = date\<rparr> (users s) of
           Inl e \<Rightarrow> (s, Inl e)
         | Inr us \<Rightarrow> (s\<lparr>users := us\<rparr>, Inr \<lparr>status = 201, cookies = [c], payload = NoBody\<rparr>))"

definition get_users :: "store \<Rightarrow> string \<Rightarrow> error + reply" where
  "get_users s sessionId =
     Inr \<lparr>status = 200, cookies = [],
          payload = UsersBody (filter (\<lambda>u. users_session_id u = sessionId) (users s))\<rparr>"

text \<open>
  \<open>.orderBy('ate_at')\<close>: ascending, rows with the same \<open>ate_at\<close> in the order of the table.
\<close>

definition sortedMeals :: "store \<Rightarrow> uuid \<Rightarrow> meal_row list" where
  "sortedMeals s u = sort_key meal_ate_at (filter (where_user_id u) (meal s))"

definition get_metrics :: "store \<Rightarrow> string \<Rightarrow> error + reply" where
  "get_metrics s sessionId =
     (case map_option users_id (first_user s sessionId) of
        None \<Rightarrow> Inl UndefinedBinding
      | Some u \<Rightarrow>
          (let mealsCount = count_total (filter (where_user_id u) (meal s));
               inDiet = count_total (filter (where_user_id_is_diet u True) (meal s));
               outDiet = count_total (filter (where_user_id_is_diet u False) (meal s));
               (bestScore, score) = streak (sortedMeals s u) (0, 0)
           in Inr \<lparr>status = 200, cookies = [],
                   payload = MetricsBody \<lparr>mealsCount = mealsCount, inDiet = inDiet,
                     outDiet = outDiet, score_bestScore = score\<rparr>\<rparr>))"

definition get_meals :: "store \<Rightarrow> string \<Rightarrow> error + reply" where
  "get_meals s sessionId =
     (case map_option users_id (first_user s sessionId) of
        None \<Rightarrow> Inl UndefinedBinding
      | Some u \<Rightarrow>
          Inr \<lparr>status = 200, cookies = [], payload = MealsBody (filter (where_user_id u) (meal s))\<rparr>)"

definition get_meal :: "store \<Rightarrow> string \<Rightarrow> uuid \<Rightarrow> error + reply" where
  "get_meal s sessionId i =
     (case map_option users_id (first_user s sessionId) of
        None \<Rightarrow> Inl UndefinedBinding
      | Some u \<Rightarrow>
          Inr \<lparr>status = 200, cookies = [],
               payload = MealBody (case find (where_id_user_id i u) (meal s) of
                                     None \<Rightarrow> Undefined | Some m \<Rightarrow> Row m)\<rparr>)"

definition delete_meal :: "store \<Rightarrow> string \<Rightarrow> uuid \<Rightarrow> store \<times> (error + reply)" where
  "delete_meal s sessionId i =
     (case map_option users_id (first_user s sessionId) of
        None \<Rightarrow> (s, Inl UndefinedBinding)
      | Some u \<Rightarrow>
          (s\<lparr>meal := filter (\<lambda>m. \<not> where_id_user_id i u m) (meal s)\<rparr>,
           Inr \<lparr>status = 204, cookies = [], payload = NoBody\<rparr>))"

text \<open>
  The body of \<open>PATCH /meal/:id\<close>: each field is \<open>nullable()\<close>, \<open>None\<close> is \<open>null\<close>.
  \<open>a || b\<close> is \<open>b\<close> when \<open>a\<close> is \<open>null\<close>, the empty string or \<open>false\<close>.
\<close>

record update_meal_body =
  um_name :: "string option"
  um_description :: "string option"
  um_ate_at :: "string option"
  um_is_diet :: "bool option"

definition truthy_string :: "string option \<Rightarrow> bool" where
  "truthy_string a = (case a of None \<Rightarrow> False | Some v \<Rightarrow> v \<noteq> [])"

definition truthy_bool :: "bool option \<Rightarrow> bool" where
  "truthy_bool a = (case a of None \<Rightarrow> False | Some v \<Rightarrow> v)"

definition or_string :: "string option \<Rightarrow> string option \<Rightarrow> string option" where
  "or_string a b = (if truthy_string a then a else b)"

definition or_bool :: "bool option \<Rightarrow> bool option \<Rightarrow> bool option" where
  "or_bool a b = (if truthy_bool a then a else b)"

definition patch_meal ::
  "(string \<Rightarrow> timestamp option) \<Rightarrow> store \<Rightarrow> string \<Rightarrow> uuid \<Rightarrow> update_meal_body \<Rightarrow> store \<times> (error + reply)" where
  "patch_meal new_Date s sessionId i b =
     (case map_option users_id (first_user s sessionId) of
        None \<Rightarrow> (s, Inl UndefinedBinding)
      | Some u \<Rightarrow>
          (let meal0 = find (where_id_user_id i u) (meal s);
               d = \<lparr>set_name = or_string (um_name b) (map_option meal_name meal0),
                    set_description = or_string (um_description b) (map_option meal_description meal0),
                    set_is_diet = or_bool (um_is_diet b) (map_option meal_is_diet meal0),
                    set_ate_at = (if truthy_string (um_ate_at b)
                                  then map_option new_Date (um_ate_at b)
                                  else map_option (\<lambda>m. Some (meal_ate_at m)) meal0)\<rparr>
           in case knex_update (where_id_user_id i u) d (meal s) of
                Inl e \<Rightarrow> (s, Inl e)
              | Inr (rows, n) \<Rightarrow>
                  (s\<lparr>meal := rows\<rparr>,
                   Inr \<lparr>status = 200, cookies = [], payload = MealBody (Number n)\<rparr>)))"

text \<open>
  \<open>POST /meal/\<close> inserts \<open>user_id: user?.id\<close>. An insert leaves out a column whose value is
  \<open>undefined\<close>, and the column \<open>user_id\<close> has no default: where no user has the cookie, the
  row is stored with \<open>user_id\<close> null.
\<close>

record create_meal_body =
  cm_name :: string
  cm_description :: string
  cm_ate_at :: string
  cm_is_diet :: bool

definition post_meal ::
  "(string \<Rightarrow> timestamp option) \<Rightarrow> store \<Rightarrow> string \<Rightarrow> create_meal_body \<Rightarrow> uuid \<Rightarrow> store \<times> (error + reply)" where
  "post_meal new_Date s sessionId b newId =
     (let date = new_Date (cm_ate_at b);
          user = first_user s sessionId
      in case insert_meal \<lparr>ins_id = newId, ins_user_id = map_option users_id user,
                ins_name = cm_name b, ins_description = cm_description b,
                ins_is_diet = cm_is_diet b, ins_ate_at = date\<rparr> (meal s) of
           Inl e \<Rightarrow> (s, Inl e)
         | Inr ms \<Rightarrow> (s\<lparr>meal := ms\<rparr>, Inr \<lparr>status = 201, cookies = [], payload = NoBody\<rparr>))"

text \<open>
  The request body of \<open>PATCH /meal/:id\<close> as it arrives: each of the four keys is absent,
  null or a value. \<open>updateMealBodySchema.parse\<close> is the first statement of the handler;
  the keys are \<open>nullable()\<close> and not \<open>optional()\<close>, so it throws where a key is absent,
  before the tables are read. (A value of another type is refused likewise; the type of
  a field leaves such values out.)
\<close>

datatype 'a field = Absent | Null | Value 'a

record patch_request_body =
  rb_name :: "string field"
  rb_description :: "string field"
  rb_ate_at :: "string field"
  rb_is_diet :: "bool field"

definition null_or_value :: "'a field \<Rightarrow> 'a option" where
  "null_or_value f = (case f of Value v \<Rightarrow> Some v | _ \<Rightarrow> None)"

definition updateMealBodySchema :: "patch_request_body \<Rightarrow> error + update_meal_body" where
  "updateMealBodySchema raw =
     (if rb_name raw = Absent \<or> rb_description raw = Absent
         \<or> rb_ate_at raw = Absent \<or> rb_is_diet raw = Absent
      then Inl ZodError
      else Inr \<lparr>um_name = null_or_value (rb_name raw),
                um_description = null_or_value (rb_description raw),
                um_ate_at = null_or_value (rb_ate_at raw),
                um_is_diet = null_or_value (rb_is_diet raw)\<rparr>)"

definition patch_meal_handler ::
  "(string \<Rightarrow> timestamp option) \<Rightarrow> store \<Rightarrow> string \<Rightarrow> uuid \<Rightarrow> patch_request_body \<Rightarrow> store \<times> (error + reply)" where
  "patch_meal_handler new_Date s sessionId i raw =
     (case updateMealBodySchema raw of
        Inl e \<Rightarrow> (s, Inl e)
      | Inr b \<Rightarrow> patch_meal new_Date s sessionId i b)"

section \<open>The routes behind the pre-handler\<close>

text \<open>
  Modelled from the spec: the pre-handler \<open>checkSessionIdExists\<close>, imported from
  \<open>../middlewares/check-session-id-exists\<close>, which is not among the sources. The spec says
  of it that it rejects missing and invalid sessions and ``halts request processing
  before the handler runs'', and of the failure: ``absent or unresolvable session cookie,
  surfaced as an authorization error, short-circuiting before the handler body''. A
  request goes on to the handler when its cookie is there and is the \<open>session_id\<close> of a
  user.
\<close>

definition checkSessionIdExists :: "store \<Rightarrow> string option \<Rightarrow> error + string" where
  "checkSessionIdExists s cookie =
     (case cookie of
        None \<Rightarrow> Inl Unauthorized
      | Some sessionId \<Rightarrow>
          if first_user s sessionId = None then Inl Unauthorized else Inr sessionId)"

definition route_post_meal ::
  "(string \<Rightarrow> timestamp option) \<Rightarrow> store \<Rightarrow> string option \<Rightarrow> create_meal_body \<Rightarrow> uuid \<Rightarrow> store \<times> (error + reply)" where
  "route_post_meal new_Date s cookie b newId =
     (case checkSessionIdExists s cookie of
        Inl e \<Rightarrow> (s, Inl e)
      | Inr sessionId \<Rightarrow> post_meal new_Date s sessionId b newId)"

definition route_patch_meal ::
  "(string \<Rightarrow> timestamp option) \<Rightarrow> store \<Rightarrow> string option \<Rightarrow> uuid \<Rightarrow> patch_request_body \<Rightarrow> store \<times> (error + reply)" where
  "route_patch_meal new_Date s cookie i raw =
     (case checkSessionIdExists s cookie of
        Inl e \<Rightarrow> (s, Inl e)
      | Inr sessionId \<Rightarrow> patch_meal_handler new_Date s sessionId i raw)"

definition route_delete_meal :: "store \<Rightarrow> string option \<Rightarrow> uuid \<Rightarrow> store \<times> (error + reply)" where
  "route_delete_meal s cookie i =
     (case checkSessionIdExists s cookie of
        Inl e \<Rightarrow> (s, Inl e)
      | Inr sessionId \<Rightarrow> delete_meal s sessionId i)"

section \<open>Notions the properties are stated with\<close>

text \<open>
  A run of diet-compliant meals: \<open>n\<close> consecutive meals from position \<open>i\<close> on, all with
  the flag set. The maximum run-length is the greatest such \<open>n\<close>; the trailing run is the
  one that ends with the last meal.
\<close>

definition run_at :: "meal_row list \<Rightarrow> nat \<Rightarrow> nat \<Rightarrow> bool" where
  "run_at ms i n = (i + n \<le> length ms \<and> list_all meal_is_diet (take n (drop i ms)))"

definition max_run_length :: "meal_row list \<Rightarrow> nat" where
  "max_run_length ms = Max {n. \<exists>i. run_at ms i n}"

definition trailing_run :: "meal_row list \<Rightarrow> nat" where
  "trailing_run ms = length (takeWhile meal_is_diet (rev ms))"

text \<open>
  Every meal has exactly one owner: its \<open>user_id\<close> is not null and is the \<open>id\<close> of exactly
  one row of \<open>users\<close>.
\<close>

definition has_one_owner :: "users_row list \<Rightarrow> meal_row \<Rightarrow> bool" where
  "has_one_owner us m =
     (case meal_user_id m of
        None \<Rightarrow> False
      | Some u \<Rightarrow> length (filter (\<lambda>r. users_id r = u) us) = 1)"

definition meal_owner_inv :: "store \<Rightarrow> bool" where
  "meal_owner_inv s = list_all (has_one_owner (users s)) (meal s)"

text \<open>
  The states the requests that write reach from the empty tables: registration, which has
  no pre-handler, and the three writing routes of the meal ledger, with any cookie or
  none.
\<close>

inductive reachable :: "store \<Rightarrow> bool" where
  initial: "reachable empty_store"
| registered: "reachable s \<Longrightarrow> reachable (fst (post_users new_Date s cu sessionId newId))"
| created: "reachable s \<Longrightarrow> reachable (fst (route_post_meal new_Date s cookie cm newId))"
| patched: "reachable s \<Longrightarrow> reachable (fst (route_patch_meal new_Date s cookie i raw))"
| deleted: "reachable s \<Longrightarrow> reachable (fst (route_delete_meal s cookie i))"

text \<open>
  The rows an update or a delete by id is aimed at: those with the given id and the
  \<open>id\<close> of the caller's user.
\<close>

definition caller_row :: "store \<Rightarrow> string \<Rightarrow> uuid \<Rightarrow> meal_row \<Rightarrow> bool" where
  "caller_row s sessionId i m =
     (case first_user s sessionId of None \<Rightarrow> False | Some u \<Rightarrow> where_id_user_id i (users_id u) m)"

section \<open>Example data\<close>

text \<open>Identifiers, of the form \<open>randomUUID()\<close> gives and the \<open>uuid()\<close> schema accepts.\<close>

abbreviation mid1 :: uuid where
  "mid1 \<equiv> ''a1000000-0000-4000-8000-000000000000''"

abbreviation mid2 :: uuid where
  "mid2 \<equiv> ''a2000000-0000-4000-8000-000000000000''"

abbreviation mid3 :: uuid where
  "mid3 \<equiv> ''a3000000-0000-4000-8000-000000000000''"

abbreviation mid4 :: uuid where
  "mid4 \<equiv> ''a4000000-0000-4000-8000-000000000000''"

abbreviation mid5 :: uuid where
  "mid5 \<equiv> ''a5000000-0000-4000-8000-000000000000''"

abbreviation mid6 :: uuid where
  "mid6 \<equiv> ''a6000000-0000-4000-8000-000000000000''"

abbreviation mid9 :: uuid where
  "mid9 \<equiv> ''a9000000-0000-4000-8000-000000000000''"

abbreviation sid1 :: uuid where
  "sid1 \<equiv> ''c1000000-0000-4000-8000-000000000000''"

abbreviation sid2 :: uuid where
  "sid2 \<equiv> ''c2000000-0000-4000-8000-000000000000''"

abbreviation sid9 :: uuid where
  "sid9 \<equiv> ''c9000000-0000-4000-8000-000000000000''"

abbreviation uid1 :: uuid where
  "uid1 \<equiv> ''b1000000-0000-4000-8000-000000000000''"

abbreviation uid2 :: uuid where
  "uid2 \<equiv> ''b2000000-0000-4000-8000-000000000000''"

text \<open>A conversion that takes \<open>yesterday\<close> for no date and any other string for the epoch.\<close>

definition example_Date :: "string \<Rightarrow> timestamp option" where
  "example_Date x = (if x = ''yesterday'' then None else Some 0)"

definition ana :: users_row where
  "ana = \<lparr>users_id = uid1, users_session_id = sid1, users_name = ''Ana'',
           users_email = ''ana@example.com'', users_birthDate = Some 0\<rparr>"

definition bia :: users_row where
  "bia = \<lparr>users_id = uid2, users_session_id = sid2, users_name = ''Bia'',
           users_email = ''bia@example.com'', users_birthDate = Some 0\<rparr>"

definition a_meal :: "uuid \<Rightarrow> timestamp \<Rightarrow> bool \<Rightarrow> uuid \<Rightarrow> meal_row" where
  "a_meal i t d u = \<lparr>meal_id = i, meal_name = ''lunch'', meal_description = ''rice'',
                     meal_ate_at = t, meal_is_diet = d, meal_user_id = Some u\<rparr>"

text \<open>Ana ate four meals, the third off the diet; Bia ate one.\<close>

definition diary :: store where
  "diary = \<lparr>users = [ana, bia],
             meal = [a_meal mid1 1 True uid1, a_meal mid2 2 True uid1,
                     a_meal mid5 5 True uid2, a_meal mid3 3 False uid1,
                     a_meal mid4 4 True uid1]\<rparr>"

text \<open>Request bodies.\<close>

definition nothing_new :: patch_request_body where
  "nothing_new = \<lparr>rb_name = Null, rb_description = Value [], rb_ate_at = Null, rb_is_diet = Value False\<rparr>"

definition renamed :: "bool field \<Rightarrow> patch_request_body" where
  "renamed d = \<lparr>rb_name = Value ''dinner'', rb_description = Null, rb_ate_at = Null, rb_is_diet = d\<rparr>"

definition dinner :: update_meal_body where
  "dinner = \<lparr>um_name = Some ''dinner'', um_description = None, um_ate_at = None, um_is_diet = Some True\<rparr>"

definition lunch :: create_meal_body where
  "lunch = \<lparr>cm_name = ''lunch'', cm_description = ''rice'', cm_ate_at = ''2024-01-01'', cm_is_diet = True\<rparr>"

definition ana_body :: create_user_body where
  "ana_body = \<lparr>cu_name = ''Ana'', cu_email = ''ana@example.com'', cu_birthDate = ''2000-01-01''\<rparr>"

section \<open>The streak scan: what the loop computes\<close>

lemma streak_snoc:
  "streak (ms @ [m]) acc =
     (let score' = (if meal_is_diet m then snd (streak ms acc) + 1 else 0)
      in (if score' > fst (streak ms acc) then score' else fst (streak ms acc), score'))"
proof (induction ms arbitrary: acc)
  case Nil
  show ?case by (cases acc) (simp add: Let_def)
next
  case (Cons a ms)
  show ?case by (cases acc) (simp add: Let_def Cons.IH)
qed

lemma trailing_run_snoc:
  "trailing_run (ms @ [m]) = (if meal_is_diet m then trailing_run ms + 1 else 0)"
  by (simp add: trailing_run_def)

lemma streak_score: "snd (streak ms (0, 0)) = trailing_run ms"
proof (induction ms rule: rev_induct)
  case Nil
  show ?case by (simp add: trailing_run_def)
next
  case (snoc m ms)
  then show ?case by (simp add: streak_snoc trailing_run_snoc Let_def)
qed

lemma streak_best_snoc:
  "fst (streak (ms @ [m]) (0, 0)) = max (fst (streak ms (0, 0))) (trailing_run (ms @ [m]))"
  by (simp add: streak_snoc Let_def streak_score trailing_run_snoc max_def)

lemma streak_score_le_best: "snd (streak ms (0, 0)) \<le> fst (streak ms (0, 0))"
proof (cases ms rule: rev_cases)
  case Nil
  then show ?thesis by simp
next
  case (snoc ys y)
  then show ?thesis by (simp add: streak_best_snoc streak_score)
qed

lemma take_all_takeWhile:
  "n \<le> length r \<Longrightarrow> list_all P (take n r) \<Longrightarrow> n \<le> length (takeWhile P r)"
proof (induction r arbitrary: n)
  case Nil
  then show ?case by simp
next
  case (Cons a r)
  then show ?case by (cases n) auto
qed

lemma suffix_run_le_trailing:
  assumes "run_at ms i n" and "i + n = length ms"
  shows "n \<le> trailing_run ms"
proof -
  from assms have "take n (drop i ms) = drop i ms" by simp
  moreover from assms have "drop i ms = rev (take n (rev ms))"
    by (metis add_diff_cancel_right' rev_take rev_rev_ident length_rev)
  ultimately have "list_all meal_is_diet (take n (rev ms))"
    using assms(1) by (simp add: run_at_def list_all_iff)
  moreover from assms have "n \<le> length (rev ms)" by simp
  ultimately show ?thesis
    unfolding trailing_run_def by (rule take_all_takeWhile[rotated])
qed

lemma trailing_is_run: "run_at ms (length ms - trailing_run ms) (trailing_run ms)"
proof -
  define t where "t = trailing_run ms"
  have tw: "takeWhile meal_is_diet (rev ms) = take t (rev ms)"
    unfolding t_def trailing_run_def by (rule takeWhile_eq_take)
  have le: "t \<le> length ms"
    unfolding t_def trailing_run_def using length_takeWhile_le[of meal_is_diet "rev ms"] by simp
  have "drop (length ms - t) ms = rev (take t (rev ms))"
    by (simp add: rev_take)
  then have eq: "drop (length ms - t) ms = rev (takeWhile meal_is_diet (rev ms))"
    by (simp only: tw)
  have "list_all meal_is_diet (drop (length ms - t) ms)"
    unfolding eq list_all_iff by (auto dest: set_takeWhileD)
  with le show ?thesis
    unfolding t_def[symmetric] by (simp add: run_at_def)
qed

lemma run_at_snoc:
  "run_at (ms @ [m]) i n \<Longrightarrow> run_at ms i n \<or> i + n = Suc (length ms)"
  by (cases "i + n \<le> length ms") (auto simp: run_at_def)

lemma run_at_append: "run_at ms i n \<Longrightarrow> run_at (ms @ [m]) i n"
  by (auto simp: run_at_def)

lemma run_le_best: "run_at ms i n \<Longrightarrow> n \<le> fst (streak ms (0, 0))"
proof (induction ms arbitrary: i n rule: rev_induct)
  case Nil
  then show ?case by (simp add: run_at_def)
next
  case (snoc m ms)
  from run_at_snoc[OF snoc.prems] show ?case
  proof
    assume "run_at ms i n"
    then have "n \<le> fst (streak ms (0, 0))" by (rule snoc.IH)
    then show ?thesis by (simp add: streak_best_snoc)
  next
    assume "i + n = Suc (length ms)"
    then have "n \<le> trailing_run (ms @ [m])"
      using suffix_run_le_trailing[OF snoc.prems] by simp
    then show ?thesis by (simp only: streak_best_snoc max.coboundedI2)
  qed
qed

lemma best_is_run: "\<exists>i. run_at ms i (fst (streak ms (0, 0)))"
proof (induction ms rule: rev_induct)
  case Nil
  show ?case by (simp add: run_at_def)
next
  case (snoc m ms)
  show ?case
  proof (cases "fst (streak ms (0, 0)) \<le> trailing_run (ms @ [m])")
    case True
    then have "fst (streak (ms @ [m]) (0, 0)) = trailing_run (ms @ [m])"
      by (simp only: streak_best_snoc max_absorb2)
    then show ?thesis using trailing_is_run[of "ms @ [m]"] by metis
  next
    case False
    then have "fst (streak (ms @ [m]) (0, 0)) = fst (streak ms (0, 0))"
      by (simp only: streak_best_snoc max_def if_False)
    then show ?thesis using snoc.IH run_at_append by metis
  qed
qed

lemma runs_finite: "finite {n. \<exists>i. run_at ms i n}"
proof (rule finite_subset)
  show "{n. \<exists>i. run_at ms i n} \<subseteq> {0..length ms}" by (auto simp: run_at_def)
qed simp

lemma best_eq_max_run: "fst (streak ms (0, 0)) = max_run_length ms"
  unfolding max_run_length_def
  by (rule Max_eqI[symmetric, OF runs_finite]) (auto intro: run_le_best best_is_run)

lemma all_diet_trailing: "list_all meal_is_diet ms \<Longrightarrow> trailing_run ms = length ms"
proof -
  assume "list_all meal_is_diet ms"
  then have "takeWhile meal_is_diet (rev ms) = rev ms"
    by (simp add: list_all_iff)
  then show ?thesis unfolding trailing_run_def by (simp only: length_rev)
qed

lemma best_le_length: "fst (streak ms (0, 0)) \<le> length ms"
  using best_is_run[of ms] by (auto simp: run_at_def)

lemma all_diet_best: "list_all meal_is_diet ms \<Longrightarrow> fst (streak ms (0, 0)) = length ms"
  using streak_score_le_best[of ms] best_le_length[of ms]
  by (simp add: streak_score all_diet_trailing)

lemma best_full_all_diet:
  assumes "fst (streak ms (0, 0)) = length ms"
  shows "list_all meal_is_diet ms"
proof -
  obtain i where "run_at ms i (length ms)"
    using best_is_run[of ms] assms by auto
  then show ?thesis by (auto simp: run_at_def)
qed

lemma no_diet_best:
  assumes "list_all (\<lambda>m. \<not> meal_is_diet m) ms"
  shows "fst (streak ms (0, 0)) = 0"
proof (rule ccontr)
  assume "fst (streak ms (0, 0)) \<noteq> 0"
  then obtain i n where r: "run_at ms i (Suc n)"
    using best_is_run[of ms] by (cases "fst (streak ms (0, 0))") auto
  then have i: "i < length ms" by (simp add: run_at_def)
  then have "drop i ms = ms ! i # drop (Suc i) ms"
    by (simp add: Cons_nth_drop_Suc)
  with r have "meal_is_diet (ms ! i)" by (simp add: run_at_def)
  moreover from i have "ms ! i \<in> set ms" by simp
  ultimately show False using assms by (auto simp: list_all_iff)
qed

text \<open>
  C1. For every store and every session cookie that resolves to a user, the reply of
  \<open>GET /users/metrics/\<close> carries in \<open>score.bestScore\<close> the value of the variable \<open>score\<close>
  when the scan of that user's meals ends: the length of the trailing run of diet-compliant
  meals. The variable \<open>bestScore\<close> of the loop is not in the reply, and the two differ on
  some sequences.
\<close>

theorem metrics_reports_running_score:
  assumes "first_user s sessionId = Some u"
  shows "\<exists>m. get_metrics s sessionId = Inr \<lparr>status = 200, cookies = [], payload = MetricsBody m\<rparr>
           \<and> score_bestScore m = snd (streak (sortedMeals s (users_id u)) (0, 0))
           \<and> score_bestScore m = trailing_run (sortedMeals s (users_id u))
           \<and> (\<exists>ms. snd (streak ms (0, 0)) \<noteq> fst (streak ms (0, 0)))"
proof -
  have "snd (streak [a_meal mid1 1 True uid1, a_meal mid2 2 False uid1] (0, 0))
        \<noteq> fst (streak [a_meal mid1 1 True uid1, a_meal mid2 2 False uid1] (0, 0))"
    by (simp add: a_meal_def)
  then have ex: "\<exists>ms. snd (streak ms (0, 0)) \<noteq> fst (streak ms (0, 0))" by blast
  show ?thesis
    using assms ex
    by (simp add: get_metrics_def split_beta streak_score[symmetric])
qed

theorem metrics_reports_running_score_witness:
  "first_user diary sid1 = Some ana
   \<and> (\<exists>m. get_metrics diary sid1 = Inr \<lparr>status = 200, cookies = [], payload = MetricsBody m\<rparr>
          \<and> score_bestScore m = 1)
   \<and> streak (sortedMeals diary uid1) (0, 0) = (2, 1)"
proof -
  have u: "first_user diary sid1 = Some ana"
    by (simp add: first_user_def diary_def ana_def bia_def)
  have st: "streak (sortedMeals diary uid1) (0, 0) = (2, 1)"
    by (simp add: sortedMeals_def diary_def a_meal_def where_user_id_def)
  show ?thesis
    using metrics_reports_running_score[OF u] u st by (auto simp: ana_def)
qed

text \<open>
  C2. For every meal sequence, the variable \<open>bestScore\<close> at the end of the scan is the
  maximum run-length of consecutive diet-compliant meals. It is 0 for the empty sequence,
  the number of meals when every meal is compliant, and 0 when none is.
\<close>

theorem best_is_max_run_length:
  "fst (streak ms (0, 0)) = max_run_length ms
   \<and> fst (streak [] (0, 0)) = 0
   \<and> (list_all meal_is_diet cs \<longrightarrow> fst (streak cs (0, 0)) = length cs)
   \<and> (list_all (\<lambda>m. \<not> meal_is_diet m) ns \<longrightarrow> fst (streak ns (0, 0)) = 0)"
  using best_eq_max_run[of ms] all_diet_best[of cs] no_diet_best[of ns] by simp

theorem best_is_max_run_length_witness:
  "fst (streak (sortedMeals diary uid1) (0, 0)) = max_run_length (sortedMeals diary uid1)
   \<and> max_run_length (sortedMeals diary uid1) = 2
   \<and> list_all meal_is_diet [a_meal mid1 1 True uid1, a_meal mid2 2 True uid1]
   \<and> fst (streak [a_meal mid1 1 True uid1, a_meal mid2 2 True uid1] (0, 0)) = 2
   \<and> list_all (\<lambda>m. \<not> meal_is_diet m) [a_meal mid1 1 False uid1, a_meal mid2 2 False uid1, a_meal mid3 3 False uid1]
   \<and> fst (streak [a_meal mid1 1 False uid1, a_meal mid2 2 False uid1, a_meal mid3 3 False uid1] (0, 0)) = 0"
proof -
  have st: "fst (streak (sortedMeals diary uid1) (0, 0)) = 2"
    by (simp add: sortedMeals_def diary_def a_meal_def where_user_id_def)
  have c: "list_all meal_is_diet [a_meal mid1 1 True uid1, a_meal mid2 2 True uid1]"
    by (simp add: a_meal_def)
  have n: "list_all (\<lambda>m. \<not> meal_is_diet m) [a_meal mid1 1 False uid1, a_meal mid2 2 False uid1, a_meal mid3 3 False uid1]"
    by (simp add: a_meal_def)
  show ?thesis
    using best_is_max_run_length[of "sortedMeals diary uid1"
        "[a_meal mid1 1 True uid1, a_meal mid2 2 True uid1]"
        "[a_meal mid1 1 False uid1, a_meal mid2 2 False uid1, a_meal mid3 3 False uid1]"]
      st c n
    by simp
qed

text \<open>
  C3. For every meal sequence, the best streak is at least the running streak at the end
  of the scan, and it equals the number of meals exactly when every meal is
  diet-compliant.
\<close>

theorem best_ge_score_and_full_iff:
  "snd (streak ms (0, 0)) \<le> fst (streak ms (0, 0))
   \<and> (fst (streak ms (0, 0)) = length ms) = list_all meal_is_diet ms"
  using streak_score_le_best[of ms] all_diet_best[of ms] best_full_all_diet[of ms] by blast

section \<open>The meal ledger\<close>

lemma first_user_delete: "first_user (fst (delete_meal s sessionId i)) sid = first_user s sid"
  by (simp add: delete_meal_def first_user_def split: option.splits)

lemma find_filter_not: "find P (filter (\<lambda>x. \<not> P x) xs) = None"
  by (simp add: find_None_iff)

lemma find_map_same:
  assumes "\<And>x. P (f x) = P x"
  shows "find P (map (\<lambda>x. if P x then f x else x) xs) = map_option f (find P xs)"
  by (induction xs) (simp_all add: assms)

lemma find_Some_filter: "find P xs = Some x \<Longrightarrow> filter P xs \<noteq> []"
  by (induction xs) (auto split: if_splits)

lemma where_apply_update: "where_id_user_id i u (apply_update d r) = where_id_user_id i u r"
  by (simp add: where_id_user_id_def apply_update_def)

lemma pk_no_match:
  assumes "distinct (map meal_id ms)" and "m \<in> set ms"
    and "meal_user_id m = Some b" and "b \<noteq> a" and "r \<in> set ms"
  shows "\<not> where_id_user_id (meal_id m) a r"
proof
  assume w: "where_id_user_id (meal_id m) a r"
  then have "meal_id r = meal_id m" by (simp add: where_id_user_id_def)
  with assms(1,2,5) have "r = m"
    by (auto simp: distinct_map dest: inj_onD)
  with w assms(3,4) show False by (simp add: where_id_user_id_def)
qed

text \<open>
  C8. For every store and every session cookie that resolves to a user, and for every id
  (that of a meal of the caller or not), delete-by-id replies 204 with no body, and
  get-by-id with the same id and cookie in the store it leaves replies with \<open>meal\<close>
  undefined.
\<close>

theorem delete_then_get_absent:
  assumes "first_user s sessionId = Some u"
  shows "snd (delete_meal s sessionId i) = Inr \<lparr>status = 204, cookies = [], payload = NoBody\<rparr>
         \<and> get_meal (fst (delete_meal s sessionId i)) sessionId i
             = Inr \<lparr>status = 200, cookies = [], payload = MealBody Undefined\<rparr>"
proof -
  have "first_user (fst (delete_meal s sessionId i)) sessionId = Some u"
    using assms by (simp add: first_user_delete)
  moreover have "meal (fst (delete_meal s sessionId i))
      = filter (\<lambda>m. \<not> where_id_user_id i (users_id u) m) (meal s)"
    using assms by (simp add: delete_meal_def)
  ultimately have "get_meal (fst (delete_meal s sessionId i)) sessionId i
      = Inr \<lparr>status = 200, cookies = [], payload = MealBody Undefined\<rparr>"
    by (simp add: get_meal_def find_filter_not)
  then show ?thesis using assms by (simp add: delete_meal_def)
qed

text \<open>
  Ana deletes her meal \<open>mid3\<close>, which she could read before, and \<open>mid9\<close>, which names no meal.
\<close>

theorem delete_then_get_absent_witness:
  "first_user diary sid1 = Some ana
   \<and> get_meal diary sid1 mid3
       = Inr \<lparr>status = 200, cookies = [], payload = MealBody (Row (a_meal mid3 3 False uid1))\<rparr>
   \<and> snd (delete_meal diary sid1 mid3) = Inr \<lparr>status = 204, cookies = [], payload = NoBody\<rparr>
   \<and> get_meal (fst (delete_meal diary sid1 mid3)) sid1 mid3
       = Inr \<lparr>status = 200, cookies = [], payload = MealBody Undefined\<rparr>
   \<and> snd (delete_meal diary sid1 mid9) = Inr \<lparr>status = 204, cookies = [], payload = NoBody\<rparr>"
proof -
  have u: "first_user diary sid1 = Some ana"
    by (simp add: first_user_def diary_def ana_def bia_def)
  have g: "get_meal diary sid1 mid3
       = Inr \<lparr>status = 200, cookies = [], payload = MealBody (Row (a_meal mid3 3 False uid1))\<rparr>"
    by (simp add: get_meal_def u) (simp add: diary_def ana_def a_meal_def where_id_user_id_def)
  show ?thesis
    using delete_then_get_absent[OF u, of mid3] delete_then_get_absent[OF u, of mid9] u g
    by simp
qed

text \<open>
  C5. In a store whose meal ids are distinct (the primary key), let the cookie resolve to
  the user \<open>a\<close> and let the meal with id \<open>i\<close> belong to another user \<open>b\<close>. Then \<open>a\<close>'s
  get-by-id replies with \<open>meal\<close> undefined, and \<open>a\<close>'s update-by-id and delete-by-id leave
  the table \<open>meal\<close> as it was: the meal is still there with the same fields.
\<close>

theorem other_users_meal_is_out_of_reach:
  assumes "distinct (map meal_id (meal s))"
    and "first_user s sessionId = Some a"
    and "m \<in> set (meal s)" and "meal_id m = i" and "meal_user_id m = Some b"
    and "b \<noteq> users_id a"
  shows "get_meal s sessionId i = Inr \<lparr>status = 200, cookies = [], payload = MealBody Undefined\<rparr>
         \<and> meal (fst (patch_meal new_Date s sessionId i um)) = meal s
         \<and> meal (fst (delete_meal s sessionId i)) = meal s"
proof -
  have no: "\<And>r. r \<in> set (meal s) \<Longrightarrow> \<not> where_id_user_id i (users_id a) r"
    using pk_no_match[OF assms(1,3,5,6)] assms(4) by simp
  then have f: "find (where_id_user_id i (users_id a)) (meal s) = None"
    by (simp add: find_None_iff)
  have same: "map (\<lambda>r. if where_id_user_id i (users_id a) r then apply_update d r else r) (meal s) = meal s" for d
    using no by (simp add: map_idI)
  have g: "get_meal s sessionId i = Inr \<lparr>status = 200, cookies = [], payload = MealBody Undefined\<rparr>"
    using assms(2) f by (simp add: get_meal_def)
  have p: "meal (fst (patch_meal new_Date s sessionId i um)) = meal s"
    using assms(2) by (simp add: patch_meal_def knex_update_def same Let_def)
  have d: "meal (fst (delete_meal s sessionId i)) = meal s"
    using assms(2) no by (simp add: delete_meal_def)
  from g p d show ?thesis by simp
qed

text \<open>
  Ana asks for, patches and deletes Bia's meal \<open>mid5\<close>.
\<close>

theorem other_users_meal_is_out_of_reach_witness:
  "distinct (map meal_id (meal diary)) \<and> first_user diary sid1 = Some ana
   \<and> a_meal mid5 5 True uid2 \<in> set (meal diary) \<and> uid2 \<noteq> users_id ana
   \<and> get_meal diary sid1 mid5 = Inr \<lparr>status = 200, cookies = [], payload = MealBody Undefined\<rparr>
   \<and> meal (fst (patch_meal example_Date diary sid1 mid5
         \<lparr>um_name = Some ''mine'', um_description = None, um_ate_at = None, um_is_diet = Some True\<rparr>)) = meal diary
   \<and> meal (fst (delete_meal diary sid1 mid5)) = meal diary"
proof -
  have pk: "distinct (map meal_id (meal diary))"
    by (simp add: diary_def a_meal_def)
  have u: "first_user diary sid1 = Some ana"
    by (simp add: first_user_def diary_def ana_def bia_def)
  have m: "a_meal mid5 5 True uid2 \<in> set (meal diary)"
    by (simp add: diary_def)
  have i: "meal_id (a_meal mid5 5 True uid2) = mid5"
    and o: "meal_user_id (a_meal mid5 5 True uid2) = Some uid2"
    by (simp_all add: a_meal_def)
  have ne: "uid2 \<noteq> users_id ana" by (simp add: ana_def)
  show ?thesis
    using other_users_meal_is_out_of_reach[OF pk u m i o ne] pk u m ne by simp
qed

lemma patch_meal_owned:
  assumes "first_user s sessionId = Some u"
    and "find (where_id_user_id i (users_id u)) (meal s) = Some m"
  shows "patch_meal new_Date s sessionId i um =
     (if truthy_string (um_ate_at um) \<and> map_option new_Date (um_ate_at um) = Some None
      then (s, Inl ConstraintViolation)
      else
       (s\<lparr>meal := map (\<lambda>r. if where_id_user_id i (users_id u) r
          then apply_update
            \<lparr>set_name = or_string (um_name um) (Some (meal_name m)),
             set_description = or_string (um_description um) (Some (meal_description m)),
             set_is_diet = or_bool (um_is_diet um) (Some (meal_is_diet m)),
             set_ate_at = (if truthy_string (um_ate_at um) then map_option new_Date (um_ate_at um)
                           else Some (Some (meal_ate_at m)))\<rparr> r
          else r) (meal s)\<rparr>,
        Inr \<lparr>status = 200, cookies = [],
           payload = MealBody (Number (length (filter (where_id_user_id i (users_id u)) (meal s))))\<rparr>))"
  using assms find_Some_filter[OF assms(2)]
  by (simp add: patch_meal_def knex_update_def Let_def or_string_def or_bool_def
      truthy_string_def truthy_bool_def split: option.splits)

lemma patch_meal_false_is_null:
  "patch_meal new_Date s sessionId i (um\<lparr>um_is_diet := Some False\<rparr>)
     = patch_meal new_Date s sessionId i (um\<lparr>um_is_diet := None\<rparr>)"
  by (cases "first_user s sessionId") (simp_all add: patch_meal_def or_bool_def truthy_bool_def cong: if_cong)

lemma patch_meal_keeps:
  assumes "first_user s sessionId = Some u"
    and "find (where_id_user_id i (users_id u)) (meal s) = Some m"
  shows "\<exists>m'. find (where_id_user_id i (users_id u)) (meal (fst (patch_meal new_Date s sessionId i um))) = Some m'
     \<and> (um_name um = None \<or> um_name um = Some [] \<longrightarrow> meal_name m' = meal_name m)
     \<and> (um_description um = None \<or> um_description um = Some [] \<longrightarrow> meal_description m' = meal_description m)
     \<and> (um_ate_at um = None \<or> um_ate_at um = Some [] \<longrightarrow> meal_ate_at m' = meal_ate_at m)
     \<and> (um_is_diet um = None \<or> um_is_diet um = Some False \<longrightarrow> meal_is_diet m' = meal_is_diet m)"
proof (cases "truthy_string (um_ate_at um) \<and> map_option new_Date (um_ate_at um) = Some None")
  case True
  then have "fst (patch_meal new_Date s sessionId i um) = s"
    by (simp add: patch_meal_owned[OF assms])
  with assms(2) show ?thesis by simp
next
  case False
  let ?d = "\<lparr>set_name = or_string (um_name um) (Some (meal_name m)),
             set_description = or_string (um_description um) (Some (meal_description m)),
             set_is_diet = or_bool (um_is_diet um) (Some (meal_is_diet m)),
             set_ate_at = (if truthy_string (um_ate_at um) then map_option new_Date (um_ate_at um)
                           else Some (Some (meal_ate_at m)))\<rparr>"
  have "patch_meal new_Date s sessionId i um =
       (s\<lparr>meal := map (\<lambda>r. if where_id_user_id i (users_id u) r then apply_update ?d r else r) (meal s)\<rparr>,
        Inr \<lparr>status = 200, cookies = [],
           payload = MealBody (Number (length (filter (where_id_user_id i (users_id u)) (meal s))))\<rparr>)"
    unfolding patch_meal_owned[OF assms] using False by (rule if_not_P)
  then have ms: "meal (fst (patch_meal new_Date s sessionId i um))
        = map (\<lambda>r. if where_id_user_id i (users_id u) r then apply_update ?d r else r) (meal s)"
    by simp
  have "find (where_id_user_id i (users_id u)) (meal (fst (patch_meal new_Date s sessionId i um)))
        = map_option (apply_update ?d) (find (where_id_user_id i (users_id u)) (meal s))"
    unfolding ms by (rule find_map_same, rule where_apply_update)
  then have f: "find (where_id_user_id i (users_id u)) (meal (fst (patch_meal new_Date s sessionId i um)))
        = Some (apply_update ?d m)"
    by (simp add: assms(2))
  have n: "um_name um = None \<or> um_name um = Some [] \<longrightarrow> meal_name (apply_update ?d m) = meal_name m"
    by (auto simp: apply_update_def or_string_def truthy_string_def)
  have de: "um_description um = None \<or> um_description um = Some []
      \<longrightarrow> meal_description (apply_update ?d m) = meal_description m"
    by (auto simp: apply_update_def or_string_def truthy_string_def)
  have a: "um_ate_at um = None \<or> um_ate_at um = Some [] \<longrightarrow> meal_ate_at (apply_update ?d m) = meal_ate_at m"
    by (auto simp: apply_update_def truthy_string_def)
  have di: "um_is_diet um = None \<or> um_is_diet um = Some False
      \<longrightarrow> meal_is_diet (apply_update ?d m) = meal_is_diet m"
    by (auto simp: apply_update_def or_bool_def truthy_bool_def)
  from f n de a di show ?thesis by blast
qed

lemma handler_refuses_absent:
  "rb_name raw = Absent \<or> rb_description raw = Absent \<or> rb_ate_at raw = Absent \<or> rb_is_diet raw = Absent
   \<Longrightarrow> patch_meal_handler new_Date s sessionId i raw = (s, Inl ZodError)"
  by (simp add: patch_meal_handler_def updateMealBodySchema_def)

text \<open>
  C4, as amended. For every \<open>PATCH\<close> on a meal of the caller, each field of the request
  body that is null, the empty string or \<open>false\<close> is stored as the value the meal had
  before; a body with \<open>is_diet = false\<close> does exactly what the same body with
  \<open>is_diet = null\<close> does. A body that leaves \<open>is_diet\<close> out is refused by the schema and
  nothing is read or written.
\<close>

theorem patch_keeps_null_and_falsy_fields:
  assumes "first_user s sessionId = Some u"
    and "find (where_id_user_id i (users_id u)) (meal s) = Some m"
  shows "\<exists>m'. find (where_id_user_id i (users_id u))
                (meal (fst (patch_meal_handler new_Date s sessionId i raw))) = Some m'
     \<and> (rb_name raw = Null \<or> rb_name raw = Value [] \<longrightarrow> meal_name m' = meal_name m)
     \<and> (rb_description raw = Null \<or> rb_description raw = Value [] \<longrightarrow> meal_description m' = meal_description m)
     \<and> (rb_ate_at raw = Null \<or> rb_ate_at raw = Value [] \<longrightarrow> meal_ate_at m' = meal_ate_at m)
     \<and> (rb_is_diet raw = Null \<or> rb_is_diet raw = Value False \<longrightarrow> meal_is_diet m' = meal_is_diet m)
     \<and> patch_meal_handler new_Date s sessionId i (raw\<lparr>rb_is_diet := Value False\<rparr>)
         = patch_meal_handler new_Date s sessionId i (raw\<lparr>rb_is_diet := Null\<rparr>)
     \<and> patch_meal_handler new_Date s sessionId i (raw\<lparr>rb_is_diet := Absent\<rparr>) = (s, Inl ZodError)"
proof -
  have e: "patch_meal_handler new_Date s sessionId i (raw\<lparr>rb_is_diet := Value False\<rparr>)
         = patch_meal_handler new_Date s sessionId i (raw\<lparr>rb_is_diet := Null\<rparr>)"
    using patch_meal_false_is_null[of new_Date s sessionId i
        "\<lparr>um_name = null_or_value (rb_name raw), um_description = null_or_value (rb_description raw),
          um_ate_at = null_or_value (rb_ate_at raw), um_is_diet = None\<rparr>"]
    by (simp add: patch_meal_handler_def updateMealBodySchema_def null_or_value_def)
  have z: "patch_meal_handler new_Date s sessionId i (raw\<lparr>rb_is_diet := Absent\<rparr>) = (s, Inl ZodError)"
    by (rule handler_refuses_absent) simp
  have k: "\<exists>m'. find (where_id_user_id i (users_id u))
                (meal (fst (patch_meal_handler new_Date s sessionId i raw))) = Some m'
     \<and> (rb_name raw = Null \<or> rb_name raw = Value [] \<longrightarrow> meal_name m' = meal_name m)
     \<and> (rb_description raw = Null \<or> rb_description raw = Value [] \<longrightarrow> meal_description m' = meal_description m)
     \<and> (rb_ate_at raw = Null \<or> rb_ate_at raw = Value [] \<longrightarrow> meal_ate_at m' = meal_ate_at m)
     \<and> (rb_is_diet raw = Null \<or> rb_is_diet raw = Value False \<longrightarrow> meal_is_diet m' = meal_is_diet m)"
  proof (cases "updateMealBodySchema raw")
    case (Inl e)
    then have "fst (patch_meal_handler new_Date s sessionId i raw) = s"
      by (simp add: patch_meal_handler_def)
    with assms(2) show ?thesis by simp
  next
    case (Inr um)
    then have h: "patch_meal_handler new_Date s sessionId i raw = patch_meal new_Date s sessionId i um"
      by (simp add: patch_meal_handler_def)
    from Inr have um: "um_name um = null_or_value (rb_name raw)"
      "um_description um = null_or_value (rb_description raw)"
      "um_ate_at um = null_or_value (rb_ate_at raw)"
      "um_is_diet um = null_or_value (rb_is_diet raw)"
      by (auto simp: updateMealBodySchema_def split: if_splits)
    from patch_meal_keeps[OF assms, of new_Date um] obtain m' where
      f: "find (where_id_user_id i (users_id u)) (meal (fst (patch_meal new_Date s sessionId i um))) = Some m'"
      and n: "um_name um = None \<or> um_name um = Some [] \<longrightarrow> meal_name m' = meal_name m"
      and d: "um_description um = None \<or> um_description um = Some [] \<longrightarrow> meal_description m' = meal_description m"
      and a: "um_ate_at um = None \<or> um_ate_at um = Some [] \<longrightarrow> meal_ate_at m' = meal_ate_at m"
      and di: "um_is_diet um = None \<or> um_is_diet um = Some False \<longrightarrow> meal_is_diet m' = meal_is_diet m"
      by blast
    from n d a di have "(rb_name raw = Null \<or> rb_name raw = Value [] \<longrightarrow> meal_name m' = meal_name m)
     \<and> (rb_description raw = Null \<or> rb_description raw = Value [] \<longrightarrow> meal_description m' = meal_description m)
     \<and> (rb_ate_at raw = Null \<or> rb_ate_at raw = Value [] \<longrightarrow> meal_ate_at m' = meal_ate_at m)
     \<and> (rb_is_diet raw = Null \<or> rb_is_diet raw = Value False \<longrightarrow> meal_is_diet m' = meal_is_diet m)"
      by (auto simp: um null_or_value_def)
    with f h show ?thesis by auto
  qed
  from k e z show ?thesis by blast
qed

text \<open>
  Ana patches her meal \<open>mid1\<close> with nothing but null, empty and false values, and then
  with \<open>is_diet\<close> left out.
\<close>

theorem patch_keeps_null_and_falsy_fields_witness:
  "first_user diary sid1 = Some ana
   \<and> find (where_id_user_id mid1 (users_id ana)) (meal diary) = Some (a_meal mid1 1 True uid1)
   \<and> rb_name nothing_new = Null \<and> rb_description nothing_new = Value []
   \<and> rb_ate_at nothing_new = Null \<and> rb_is_diet nothing_new = Value False
   \<and> snd (patch_meal_handler example_Date diary sid1 mid1 nothing_new)
       = Inr \<lparr>status = 200, cookies = [], payload = MealBody (Number 1)\<rparr>
   \<and> find (where_id_user_id mid1 (users_id ana))
        (meal (fst (patch_meal_handler example_Date diary sid1 mid1 nothing_new)))
       = Some (a_meal mid1 1 True uid1)
   \<and> patch_meal_handler example_Date diary sid1 mid1 (nothing_new\<lparr>rb_is_diet := Absent\<rparr>)
       = (diary, Inl ZodError)"
proof -
  have u: "first_user diary sid1 = Some ana"
    by (simp add: first_user_def diary_def ana_def bia_def)
  have m: "find (where_id_user_id mid1 (users_id ana)) (meal diary) = Some (a_meal mid1 1 True uid1)"
    by (simp add: diary_def ana_def a_meal_def where_id_user_id_def)
  have h: "patch_meal_handler example_Date diary sid1 mid1 nothing_new
      = patch_meal example_Date diary sid1 mid1
          \<lparr>um_name = None, um_description = Some [], um_ate_at = None, um_is_diet = Some False\<rparr>"
    by (simp add: patch_meal_handler_def updateMealBodySchema_def nothing_new_def null_or_value_def)
  have r: "snd (patch_meal_handler example_Date diary sid1 mid1 nothing_new)
       = Inr \<lparr>status = 200, cookies = [], payload = MealBody (Number 1)\<rparr>"
    unfolding h
    by (simp add: patch_meal_owned[OF u m] truthy_string_def)
       (simp add: diary_def ana_def a_meal_def where_id_user_id_def)
  have p: "meal (fst (patch_meal_handler example_Date diary sid1 mid1 nothing_new)) = meal diary"
    unfolding h
    by (simp add: patch_meal_owned[OF u m] truthy_string_def)
       (simp add: diary_def ana_def a_meal_def where_id_user_id_def apply_update_def
         or_string_def or_bool_def truthy_string_def truthy_bool_def)
  show ?thesis
    using patch_keeps_null_and_falsy_fields[OF u m, of example_Date nothing_new] u m r p
    by (simp add: nothing_new_def)
qed

text \<open>
  C4, as stated, fails: leaving \<open>is_diet\<close> out is not the same as sending \<open>false\<close>. Ana
  renames her meal \<open>mid1\<close>: without the key the request is refused and the diary is as
  it was; with \<open>is_diet = false\<close> the reply is 200 and the name is stored.
\<close>

theorem omitted_is_diet_differs_from_false:
  "patch_meal_handler example_Date diary sid1 mid1 (renamed Absent) = (diary, Inl ZodError)
   \<and> snd (patch_meal_handler example_Date diary sid1 mid1 (renamed (Value False)))
       = Inr \<lparr>status = 200, cookies = [], payload = MealBody (Number 1)\<rparr>
   \<and> find (where_id_user_id mid1 uid1)
        (meal (fst (patch_meal_handler example_Date diary sid1 mid1 (renamed (Value False)))))
       = Some ((a_meal mid1 1 True uid1)\<lparr>meal_name := ''dinner''\<rparr>)
   \<and> patch_meal_handler example_Date diary sid1 mid1 (renamed (Value False))
       \<noteq> patch_meal_handler example_Date diary sid1 mid1 (renamed Absent)"
proof -
  have u: "first_user diary sid1 = Some ana"
    by (simp add: first_user_def diary_def ana_def bia_def)
  have m: "find (where_id_user_id mid1 (users_id ana)) (meal diary) = Some (a_meal mid1 1 True uid1)"
    by (simp add: diary_def ana_def a_meal_def where_id_user_id_def)
  have z: "patch_meal_handler example_Date diary sid1 mid1 (renamed Absent) = (diary, Inl ZodError)"
    by (simp add: patch_meal_handler_def updateMealBodySchema_def renamed_def)
  have h: "patch_meal_handler example_Date diary sid1 mid1 (renamed (Value False))
      = patch_meal example_Date diary sid1 mid1
          \<lparr>um_name = Some ''dinner'', um_description = None, um_ate_at = None, um_is_diet = Some False\<rparr>"
    by (simp add: patch_meal_handler_def updateMealBodySchema_def renamed_def null_or_value_def)
  have r: "snd (patch_meal_handler example_Date diary sid1 mid1 (renamed (Value False)))
       = Inr \<lparr>status = 200, cookies = [], payload = MealBody (Number 1)\<rparr>"
    unfolding h
    by (simp add: patch_meal_owned[OF u m] truthy_string_def)
       (simp add: diary_def ana_def a_meal_def where_id_user_id_def)
  have f: "find (where_id_user_id mid1 uid1)
        (meal (fst (patch_meal_handler example_Date diary sid1 mid1 (renamed (Value False)))))
       = Some ((a_meal mid1 1 True uid1)\<lparr>meal_name := ''dinner''\<rparr>)"
    unfolding h
    by (simp add: patch_meal_owned[OF u m] truthy_string_def)
       (simp add: diary_def ana_def a_meal_def where_id_user_id_def apply_update_def
         or_string_def or_bool_def truthy_string_def truthy_bool_def)
  from r z have ne: "patch_meal_handler example_Date diary sid1 mid1 (renamed (Value False))
       \<noteq> patch_meal_handler example_Date diary sid1 mid1 (renamed Absent)"
    by (metis snd_conv sum.distinct(1))
  from z r f ne show ?thesis by simp
qed

text \<open>
  C7. What \<open>PATCH /users/meal/:id\<close> replies: the handler assigns the result of
  \<open>update\<close> to \<open>meal\<close>, the number of rows matched, and returns that. The \<open>meal\<close> field of
  the body is never a meal record (and never undefined); for Ana's meal \<open>mid3\<close> it is the
  number 1, with status 200.
\<close>

theorem patch_replies_with_a_count:
  "snd (patch_meal new_Date s sessionId i um)
     \<noteq> Inr \<lparr>status = st, cookies = cs, payload = MealBody (Row m)\<rparr>
   \<and> snd (patch_meal new_Date s sessionId i um)
     \<noteq> Inr \<lparr>status = st, cookies = cs, payload = MealBody Undefined\<rparr>
   \<and> snd (patch_meal example_Date diary sid1 mid3
        \<lparr>um_name = Some ''dinner'', um_description = None, um_ate_at = None, um_is_diet = Some True\<rparr>)
     = Inr \<lparr>status = 200, cookies = [], payload = MealBody (Number 1)\<rparr>"
proof -
  have g: "snd (patch_meal new_Date s sessionId i um)
     \<noteq> Inr \<lparr>status = st, cookies = cs, payload = MealBody v\<rparr>" if "\<And>n. v \<noteq> Number n" for v
    using that
    by (auto simp: patch_meal_def knex_update_def Let_def split: option.splits)
  have u: "first_user diary sid1 = Some ana"
    by (simp add: first_user_def diary_def ana_def bia_def)
  have m: "find (where_id_user_id mid3 (users_id ana)) (meal diary) = Some (a_meal mid3 3 False uid1)"
    by (simp add: diary_def ana_def a_meal_def where_id_user_id_def)
  have c: "snd (patch_meal example_Date diary sid1 mid3
        \<lparr>um_name = Some ''dinner'', um_description = None, um_ate_at = None, um_is_diet = Some True\<rparr>)
     = Inr \<lparr>status = 200, cookies = [], payload = MealBody (Number 1)\<rparr>"
    by (simp add: patch_meal_owned[OF u m] truthy_string_def)
       (simp add: diary_def ana_def a_meal_def where_id_user_id_def)
  from g[of "Row m"] g[of Undefined] c show ?thesis by simp
qed

text \<open>
  C9. What registration sets: a reply that is not an error has status 201 and the one
  cookie \<open>sessionId\<close>, path \<open>/\<close>, with \<open>maxAge = 1000 * 60 * 60 * 24 * 7 = 604800000\<close>,
  which is not \<open>60 * 60 * 24 * 7 = 604800\<close>.
\<close>

theorem session_cookie_max_age:
  "(case snd (post_users new_Date s cu sessionId newId) of
      Inl e \<Rightarrow> e = ConstraintViolation
    | Inr r \<Rightarrow> status r = 201 \<and> cookies r = [\<lparr>cookie_name = ''sessionId'', cookie_value = sessionId,
                 cookie_path = ''/'', cookie_maxAge = 604800000\<rparr>])
   \<and> map cookie_maxAge (case snd (post_users example_Date empty_store
          \<lparr>cu_name = ''Ana'', cu_email = ''ana@example.com'', cu_birthDate = ''2000-01-01''\<rparr> sid1 uid1) of
        Inl e \<Rightarrow> [] | Inr r \<Rightarrow> cookies r) = [604800000]
   \<and> (604800000 :: nat) \<noteq> 60 * 60 * 24 * 7"
  by (simp add: post_users_def insert_user_def empty_store_def Let_def)

lemma filter_not_map_same:
  assumes "\<And>x. P (f x) = P x"
  shows "filter (\<lambda>x. \<not> P x) (map (\<lambda>x. if P x then f x else x) xs) = filter (\<lambda>x. \<not> P x) xs"
  by (induction xs) (simp_all add: assms)

lemma pk_at_most_one:
  "distinct (map f xs) \<Longrightarrow> length (filter (\<lambda>x. f x = i \<and> Q x) xs) \<le> Suc 0"
proof (induction xs)
  case Nil
  show ?case by simp
next
  case (Cons a xs)
  show ?case
  proof (cases "f a = i")
    case True
    from Cons.prems have "f a \<notin> f ` set xs" by simp
    with True have "\<And>x. x \<in> set xs \<Longrightarrow> f x \<noteq> i" by blast
    then have "filter (\<lambda>x. f x = i \<and> Q x) xs = []" by (simp add: filter_empty_conv)
    then show ?thesis by simp
  next
    case False
    with Cons show ?thesis by simp
  qed
qed

lemma users_patch_meal: "users (fst (patch_meal new_Date s sessionId i um)) = users s"
  by (simp add: patch_meal_def Let_def split: option.splits sum.splits prod.splits)

lemma users_delete_meal: "users (fst (delete_meal s sessionId i)) = users s"
  by (simp add: delete_meal_def split: option.splits)

lemma users_post_meal: "users (fst (post_meal new_Date s sessionId cm newId)) = users s"
  by (simp add: post_meal_def Let_def split: sum.splits)

lemma meal_patch_meal_cases:
  "meal (fst (patch_meal new_Date s sessionId i um)) = meal s
   \<or> (\<exists>u d. first_user s sessionId = Some u
        \<and> meal (fst (patch_meal new_Date s sessionId i um))
            = map (\<lambda>r. if where_id_user_id i (users_id u) r then apply_update d r else r) (meal s))"
  by (cases "first_user s sessionId")
     (auto simp: patch_meal_def knex_update_def Let_def)

text \<open>
  C10. In a store whose meal ids are distinct, an update-by-id and a delete-by-id leave
  the table \<open>users\<close> as it was and every row of \<open>meal\<close> other than the caller's rows with
  the given id as it was; the update keeps the number of rows, the delete removes the
  caller's rows with the given id and nothing else; and at most one row is the caller's
  with the given id.
\<close>

theorem update_and_delete_frame:
  assumes "distinct (map meal_id (meal s))"
  shows "users (fst (patch_meal new_Date s sessionId i um)) = users s
     \<and> filter (\<lambda>m. \<not> caller_row s sessionId i m) (meal (fst (patch_meal new_Date s sessionId i um)))
         = filter (\<lambda>m. \<not> caller_row s sessionId i m) (meal s)
     \<and> length (meal (fst (patch_meal new_Date s sessionId i um))) = length (meal s)
     \<and> users (fst (delete_meal s sessionId i)) = users s
     \<and> meal (fst (delete_meal s sessionId i)) = filter (\<lambda>m. \<not> caller_row s sessionId i m) (meal s)
     \<and> length (filter (caller_row s sessionId i) (meal s)) \<le> 1"
proof -
  have p1: "filter (\<lambda>m. \<not> caller_row s sessionId i m) (meal (fst (patch_meal new_Date s sessionId i um)))
         = filter (\<lambda>m. \<not> caller_row s sessionId i m) (meal s)"
    using meal_patch_meal_cases[of new_Date s sessionId i um]
  proof
    assume "meal (fst (patch_meal new_Date s sessionId i um)) = meal s"
    then show ?thesis by simp
  next
    assume "\<exists>u d. first_user s sessionId = Some u
        \<and> meal (fst (patch_meal new_Date s sessionId i um))
            = map (\<lambda>r. if where_id_user_id i (users_id u) r then apply_update d r else r) (meal s)"
    then obtain u d where u: "first_user s sessionId = Some u"
      and m: "meal (fst (patch_meal new_Date s sessionId i um))
            = map (\<lambda>r. if where_id_user_id i (users_id u) r then apply_update d r else r) (meal s)"
      by blast
    have c: "caller_row s sessionId i = where_id_user_id i (users_id u)"
      by (rule ext) (simp add: caller_row_def u)
    show ?thesis
      unfolding m c by (rule filter_not_map_same, rule where_apply_update)
  qed
  have p2: "length (meal (fst (patch_meal new_Date s sessionId i um))) = length (meal s)"
    using meal_patch_meal_cases[of new_Date s sessionId i um] by auto
  have d: "meal (fst (delete_meal s sessionId i)) = filter (\<lambda>m. \<not> caller_row s sessionId i m) (meal s)"
    by (cases "first_user s sessionId") (simp_all add: delete_meal_def caller_row_def)
  have one: "length (filter (caller_row s sessionId i) (meal s)) \<le> 1"
  proof (cases "first_user s sessionId")
    case None
    then show ?thesis by (simp add: caller_row_def)
  next
    case (Some u)
    then have "caller_row s sessionId i = (\<lambda>m. meal_id m = i \<and> meal_user_id m = Some (users_id u))"
      by (intro ext) (simp add: caller_row_def where_id_user_id_def)
    then show ?thesis using pk_at_most_one[OF assms] by simp
  qed
  from p1 p2 d one show ?thesis
    by (simp add: users_patch_meal users_delete_meal)
qed

text \<open>
  Ana patches and deletes her meal \<open>mid3\<close>.
\<close>

theorem update_and_delete_frame_witness:
  "distinct (map meal_id (meal diary))
   \<and> users (fst (patch_meal example_Date diary sid1 mid3 dinner)) = [ana, bia]
   \<and> filter (\<lambda>m. \<not> caller_row diary sid1 mid3 m) (meal (fst (patch_meal example_Date diary sid1 mid3 dinner)))
       = [a_meal mid1 1 True uid1, a_meal mid2 2 True uid1, a_meal mid5 5 True uid2,
          a_meal mid4 4 True uid1]
   \<and> meal (fst (delete_meal diary sid1 mid3))
       = [a_meal mid1 1 True uid1, a_meal mid2 2 True uid1, a_meal mid5 5 True uid2,
          a_meal mid4 4 True uid1]
   \<and> filter (caller_row diary sid1 mid3) (meal diary) = [a_meal mid3 3 False uid1]"
proof -
  have pk: "distinct (map meal_id (meal diary))"
    by (simp add: diary_def a_meal_def)
  have u: "first_user diary sid1 = Some ana"
    by (simp add: first_user_def diary_def ana_def bia_def)
  have c: "caller_row diary sid1 mid3 = where_id_user_id mid3 uid1"
    by (rule ext) (simp add: caller_row_def u, simp add: ana_def)
  have f: "filter (\<lambda>m. \<not> where_id_user_id mid3 uid1 m) (meal diary)
       = [a_meal mid1 1 True uid1, a_meal mid2 2 True uid1, a_meal mid5 5 True uid2,
          a_meal mid4 4 True uid1]"
    by (simp add: diary_def a_meal_def where_id_user_id_def)
  have t: "filter (where_id_user_id mid3 uid1) (meal diary) = [a_meal mid3 3 False uid1]"
    by (simp add: diary_def a_meal_def where_id_user_id_def)
  have us: "users diary = [ana, bia]" by (simp add: diary_def)
  show ?thesis
    using update_and_delete_frame[OF pk, of example_Date sid1 mid3 dinner] pk
    by (simp add: c f t us)
qed


section \<open>Ownership of meals\<close>

lemma pk_exactly_one:
  "distinct (map f xs) \<Longrightarrow> x \<in> set xs \<Longrightarrow> length (filter (\<lambda>r. f r = f x) xs) = Suc 0"
proof (induction xs)
  case Nil
  then show ?case by simp
next
  case (Cons a xs)
  show ?case
  proof (cases "f a = f x")
    case True
    from Cons.prems have "f a \<notin> f ` set xs" by simp
    with True have "\<And>r. r \<in> set xs \<Longrightarrow> f r \<noteq> f x" by (metis imageI)
    then have "filter (\<lambda>r. f r = f x) xs = []" by (simp add: filter_empty_conv)
    with True show ?thesis by simp
  next
    case False
    with Cons.prems have "x \<in> set xs" by auto
    with Cons False show ?thesis by simp
  qed
qed

lemma owner_inv_post_users:
  assumes "distinct (map users_id (users s))" and "meal_owner_inv s"
  shows "distinct (map users_id (users (fst (post_users new_Date s cu sessionId newId))))
         \<and> meal_owner_inv (fst (post_users new_Date s cu sessionId newId))"
proof (cases "newId \<in> set (map users_id (users s)) \<or> sessionId \<in> set (map users_session_id (users s))")
  case True
  then have "fst (post_users new_Date s cu sessionId newId) = s"
    by (simp add: post_users_def insert_user_def Let_def)
  with assms show ?thesis by simp
next
  case False
  define r where "r = \<lparr>users_id = newId, users_session_id = sessionId, users_name = cu_name cu,
      users_email = cu_email cu, users_birthDate = new_Date (cu_birthDate cu)\<rparr>"
  from False have s': "fst (post_users new_Date s cu sessionId newId) = s\<lparr>users := users s @ [r]\<rparr>"
    by (simp add: post_users_def insert_user_def Let_def r_def)
  have keep: "has_one_owner (users s @ [r]) m" if m: "has_one_owner (users s) m" for m
  proof -
    from m obtain u where u: "meal_user_id m = Some u"
      and one: "length (filter (\<lambda>x. users_id x = u) (users s)) = 1"
      by (auto simp: has_one_owner_def split: option.splits)
    have "newId \<noteq> u"
    proof
      assume "newId = u"
      with False have "filter (\<lambda>x. users_id x = u) (users s) = []"
        by (auto simp: filter_empty_conv)
      with one show False by simp
    qed
    with u one show ?thesis by (simp add: has_one_owner_def r_def)
  qed
  have "meal_owner_inv (s\<lparr>users := users s @ [r]\<rparr>)"
    using assms(2) keep by (simp add: meal_owner_inv_def list_all_iff)
  moreover have "distinct (map users_id (users s @ [r]))"
    using assms(1) False by (simp add: r_def)
  ultimately show ?thesis by (simp add: s')
qed

lemma post_meal_cases:
  "fst (post_meal new_Date s sessionId cm newId) = s
   \<or> (\<exists>t. new_Date (cm_ate_at cm) = Some t \<and> newId \<notin> set (map meal_id (meal s))
        \<and> fst (post_meal new_Date s sessionId cm newId)
            = s\<lparr>meal := meal s @ [\<lparr>meal_id = newId, meal_name = cm_name cm,
                 meal_description = cm_description cm, meal_ate_at = t,
                 meal_is_diet = cm_is_diet cm,
                 meal_user_id = map_option users_id (first_user s sessionId)\<rparr>]\<rparr>)"
  by (cases "new_Date (cm_ate_at cm)") (simp_all add: post_meal_def insert_meal_def Let_def)

lemma owner_inv_post_meal:
  assumes "distinct (map users_id (users s))" and "meal_owner_inv s"
    and "first_user s sessionId \<noteq> None"
  shows "meal_owner_inv (fst (post_meal new_Date s sessionId cm newId))"
proof -
  from assms(3) obtain u where u: "first_user s sessionId = Some u" by auto
  then have "u \<in> set (users s)"
    by (auto simp: first_user_def find_Some_iff)
  then have one: "length (filter (\<lambda>r. users_id r = users_id u) (users s)) = 1"
    using pk_exactly_one[OF assms(1)] by simp
  from post_meal_cases[of new_Date s sessionId cm newId] show ?thesis
  proof
    assume "fst (post_meal new_Date s sessionId cm newId) = s"
    with assms(2) show ?thesis by simp
  next
    assume "\<exists>t. new_Date (cm_ate_at cm) = Some t \<and> newId \<notin> set (map meal_id (meal s))
        \<and> fst (post_meal new_Date s sessionId cm newId)
            = s\<lparr>meal := meal s @ [\<lparr>meal_id = newId, meal_name = cm_name cm,
                 meal_description = cm_description cm, meal_ate_at = t,
                 meal_is_diet = cm_is_diet cm,
                 meal_user_id = map_option users_id (first_user s sessionId)\<rparr>]\<rparr>"
    then obtain t where "fst (post_meal new_Date s sessionId cm newId)
            = s\<lparr>meal := meal s @ [\<lparr>meal_id = newId, meal_name = cm_name cm,
                 meal_description = cm_description cm, meal_ate_at = t,
                 meal_is_diet = cm_is_diet cm,
                 meal_user_id = map_option users_id (first_user s sessionId)\<rparr>]\<rparr>"
      by blast
    with assms(2) one show ?thesis
      by (simp add: meal_owner_inv_def has_one_owner_def u)
  qed
qed

text \<open>
  The handler of \<open>POST /meal/\<close> by itself does not keep the owner: entered with a cookie
  that no user has, a valid date and a fresh id, it stores a meal whose \<open>user_id\<close> is
  null. That every meal has an owner rests on the pre-handler.
\<close>

lemma post_meal_without_user:
  assumes "first_user s sessionId = None" and "new_Date (cm_ate_at cm) = Some t"
    and "newId \<notin> set (map meal_id (meal s))"
  shows "\<not> meal_owner_inv (fst (post_meal new_Date s sessionId cm newId))"
  using assms
  by (simp add: post_meal_def insert_meal_def Let_def meal_owner_inv_def has_one_owner_def)

lemma owner_inv_patch_meal:
  assumes "meal_owner_inv s"
  shows "meal_owner_inv (fst (patch_meal new_Date s sessionId i um))"
  using meal_patch_meal_cases[of new_Date s sessionId i um]
proof
  assume "meal (fst (patch_meal new_Date s sessionId i um)) = meal s"
  with assms show ?thesis by (simp add: meal_owner_inv_def users_patch_meal)
next
  assume "\<exists>u d. first_user s sessionId = Some u
        \<and> meal (fst (patch_meal new_Date s sessionId i um))
            = map (\<lambda>r. if where_id_user_id i (users_id u) r then apply_update d r else r) (meal s)"
  then obtain u d where u: "first_user s sessionId = Some u"
    and m: "meal (fst (patch_meal new_Date s sessionId i um))
            = map (\<lambda>r. if where_id_user_id i (users_id u) r then apply_update d r else r) (meal s)"
    by blast
  have "has_one_owner us (apply_update d r) = has_one_owner us r" for us r
    by (simp add: has_one_owner_def apply_update_def)
  with assms show ?thesis
    by (auto simp: meal_owner_inv_def users_patch_meal m list_all_iff)
qed

lemma owner_inv_patch_meal_handler:
  assumes "meal_owner_inv s"
  shows "meal_owner_inv (fst (patch_meal_handler new_Date s sessionId i raw))"
  using assms
  by (cases "updateMealBodySchema raw") (simp_all add: patch_meal_handler_def owner_inv_patch_meal)

lemma users_patch_meal_handler: "users (fst (patch_meal_handler new_Date s sessionId i raw)) = users s"
  by (cases "updateMealBodySchema raw") (simp_all add: patch_meal_handler_def users_patch_meal)

lemma owner_inv_delete_meal:
  assumes "meal_owner_inv s"
  shows "meal_owner_inv (fst (delete_meal s sessionId i))"
  using assms
  by (simp add: meal_owner_inv_def users_delete_meal)
     (cases "first_user s sessionId", simp_all add: delete_meal_def list_all_iff)

lemma pre_handler_cases:
  "checkSessionIdExists s cookie = Inl Unauthorized
   \<or> (\<exists>sessionId. cookie = Some sessionId \<and> first_user s sessionId \<noteq> None
        \<and> checkSessionIdExists s cookie = Inr sessionId)"
  by (cases cookie) (simp_all add: checkSessionIdExists_def)

lemma route_step_inv:
  assumes "distinct (map users_id (users s))" and "meal_owner_inv s"
  shows "distinct (map users_id (users (fst (route_post_meal new_Date s cookie cm newId))))
         \<and> meal_owner_inv (fst (route_post_meal new_Date s cookie cm newId))"
    and "distinct (map users_id (users (fst (route_patch_meal new_Date s cookie i raw))))
         \<and> meal_owner_inv (fst (route_patch_meal new_Date s cookie i raw))"
    and "distinct (map users_id (users (fst (route_delete_meal s cookie i))))
         \<and> meal_owner_inv (fst (route_delete_meal s cookie i))"
  using pre_handler_cases[of s cookie] assms
  by (auto simp: route_post_meal_def route_patch_meal_def route_delete_meal_def
      users_post_meal users_patch_meal_handler users_delete_meal
      owner_inv_post_meal owner_inv_patch_meal_handler owner_inv_delete_meal)

lemma reachable_inv:
  assumes "reachable s"
  shows "distinct (map users_id (users s)) \<and> meal_owner_inv s"
  using assms
proof (induction rule: reachable.induct)
  case initial
  show ?case by (simp add: empty_store_def meal_owner_inv_def)
next
  case (registered s new_Date cu sessionId newId)
  then show ?case using owner_inv_post_users by blast
next
  case (created s new_Date cookie cm newId)
  then show ?case using route_step_inv(1) by blast
next
  case (patched s new_Date cookie i raw)
  then show ?case using route_step_inv(2) by blast
next
  case (deleted s cookie i)
  then show ?case using route_step_inv(3) by blast
qed

text \<open>
  C6. In every state reachable from the empty tables by registration and the routes of
  the meal ledger, every meal has exactly one owner: its \<open>user_id\<close> is not null and is the
  \<open>id\<close> of exactly one user. A meal-create keeps that, whatever its cookie; with a cookie
  that matches no user it is halted by the pre-handler and the tables are as they were.
\<close>

theorem every_reachable_meal_has_one_owner:
  assumes "reachable s"
  shows "meal_owner_inv s
     \<and> meal_owner_inv (fst (route_post_meal new_Date s cookie cm newId))
     \<and> (first_user s sessionId = None
          \<longrightarrow> route_post_meal new_Date s (Some sessionId) cm newId = (s, Inl Unauthorized))"
proof -
  have "reachable (fst (route_post_meal new_Date s cookie cm newId))"
    using assms by (rule reachable.created)
  then have "meal_owner_inv (fst (route_post_meal new_Date s cookie cm newId))"
    using reachable_inv by blast
  moreover have "route_post_meal new_Date s (Some sessionId) cm newId = (s, Inl Unauthorized)"
    if "first_user s sessionId = None"
    using that by (simp add: route_post_meal_def checkSessionIdExists_def)
  ultimately show ?thesis using reachable_inv[OF assms] by blast
qed

text \<open>
  Ana registers and records a lunch; a request with a cookie nobody holds records
  nothing.
\<close>

theorem every_reachable_meal_has_one_owner_witness:
  "reachable (fst (route_post_meal example_Date (fst (post_users example_Date empty_store ana_body sid1 uid1)) (Some sid1) lunch mid1))
   \<and> meal (fst (route_post_meal example_Date (fst (post_users example_Date empty_store ana_body sid1 uid1)) (Some sid1) lunch mid1))
       = [\<lparr>meal_id = mid1, meal_name = ''lunch'', meal_description = ''rice'', meal_ate_at = 0,
           meal_is_diet = True, meal_user_id = Some uid1\<rparr>]
   \<and> meal_owner_inv (fst (route_post_meal example_Date (fst (post_users example_Date empty_store ana_body sid1 uid1)) (Some sid1) lunch mid1))
   \<and> first_user (fst (route_post_meal example_Date (fst (post_users example_Date empty_store ana_body sid1 uid1)) (Some sid1) lunch mid1)) sid9 = None
   \<and> fst (route_post_meal example_Date
          (fst (route_post_meal example_Date (fst (post_users example_Date empty_store ana_body sid1 uid1)) (Some sid1) lunch mid1))
          (Some sid9) lunch mid6)
       = fst (route_post_meal example_Date (fst (post_users example_Date empty_store ana_body sid1 uid1)) (Some sid1) lunch mid1)"
proof -
  let ?s1 = "fst (post_users example_Date empty_store ana_body sid1 uid1)"
  let ?s2 = "fst (route_post_meal example_Date ?s1 (Some sid1) lunch mid1)"
  have s1: "?s1 = \<lparr>users = [\<lparr>users_id = uid1, users_session_id = sid1, users_name = ''Ana'',
      users_email = ''ana@example.com'', users_birthDate = Some 0\<rparr>], meal = []\<rparr>"
    by (simp add: post_users_def insert_user_def empty_store_def ana_body_def example_Date_def Let_def)
  have r: "reachable ?s2"
    by (rule reachable.created) (rule reachable.registered, rule reachable.initial)
  have s2: "?s2 = \<lparr>users = [\<lparr>users_id = uid1, users_session_id = sid1, users_name = ''Ana'',
      users_email = ''ana@example.com'', users_birthDate = Some 0\<rparr>],
      meal = [\<lparr>meal_id = mid1, meal_name = ''lunch'', meal_description = ''rice'', meal_ate_at = 0,
           meal_is_diet = True, meal_user_id = Some uid1\<rparr>]\<rparr>"
    unfolding s1
    by (simp add: route_post_meal_def checkSessionIdExists_def post_meal_def insert_meal_def
        first_user_def lunch_def example_Date_def Let_def)
  have n: "first_user ?s2 sid9 = None"
    unfolding s2 by (simp add: first_user_def)
  show ?thesis
    using every_reachable_meal_has_one_owner[OF r, of example_Date "Some sid9" lunch mid6 sid9] r n
    by (simp add: s2)
qed

end
